theory Spec2Isabelle
  imports Complex_Main "HOL-Library.Char_ord" "HOL-Library.List_Lexorder"
begin

section \<open>The level generator of docs/level\_generation\_algorithm.md\<close>

text \<open>
  The generator is Python. Its functions are embedded as HOL functions: every raise is a
  value \<open>Inl e\<close> of a sum type, a dictionary is a map, a loop is a recursion over the list
  it walks. The importance score of a chain is a Python float: it is computed here in
  double precision, operation by operation. The difficulty score is kept as an exact
  rational: the program only compares it with the thresholds 20, 40, 60 and 80, and
  its mean complexity with 10.
\<close>

subsection \<open>Data model (frontend/src/types/index.ts)\<close>

datatype Language = PYTHON | GOLANG

datatype NodeType = FUNCTION | METHOD | CLASS

datatype Difficulty = TUTORIAL | BASIC | INTERMEDIATE | ADVANCED | EXPERT

datatype ChallengeType =
  MULTIPLE_CHOICE | CODE_TRACING | FILL_BLANK | CODE_COMPLETION | DEBUGGING | ARCHITECTURE

record Parameter =
  param_name :: string
  type_hint :: "string option"
  default_value :: "string option"

text \<open>
  \<open>CodeNode\<close> has the fields of the interface. The generator also reads \<open>is_async\<close>,
  \<open>is_generator\<close> and \<open>depends_on\<close> from a node. The first two belong to the node of
  the specification's data model and are plain booleans here. No data model declares
  \<open>depends_on\<close>, so that attribute is optional: \<open>None\<close> is a node object without the
  attribute, and reading it raises \<open>AttributeError\<close>.
\<close>

record CodeNode =
  node_id :: string
  node_name :: string
  node_type :: NodeType
  language :: Language
  file_path :: string
  line_start :: int
  line_end :: int
  parameters :: "Parameter list"
  return_type :: "string option"
  decorators :: "string list"
  calls :: "string list"
  called_by :: "string list"
  docstring :: "string option"
  complexity :: int
  loc :: int
  is_async :: bool
  is_generator :: bool
  depends_on :: "string list option"

record CallEdge =
  from_node :: string
  to_node :: string
  call_count :: int

record CallGraph =
  nodes :: "string \<rightharpoonup> CodeNode"
  edges :: "CallEdge list"
  entry_points :: "string list"

datatype error =
    KeyError string
  | ZeroDivisionError
  | AttributeError string
  | NameError string
  | UnboundLocalError string
  | IndexError
  | ConfigurationError
  | InputError

text \<open>The enum is ordered by rank: \<open>difficulty >= Difficulty.INTERMEDIATE\<close> compares ranks.\<close>

fun rank :: "Difficulty \<Rightarrow> nat" where
  "rank TUTORIAL = 0"
| "rank BASIC = 1"
| "rank INTERMEDIATE = 2"
| "rank ADVANCED = 3"
| "rank EXPERT = 4"

subsection \<open>Reading the graph\<close>

text \<open>\<open>sum(f(graph.nodes[id]) for id in chain)\<close>: the first id that is no key of
  \<open>graph.nodes\<close> raises \<open>KeyError\<close>, the first node where \<open>f\<close> raises ends the sum.\<close>

fun sum_nodes :: "CallGraph \<Rightarrow> (CodeNode \<Rightarrow> error + int) \<Rightarrow> string list \<Rightarrow> error + int" where
  "sum_nodes g f [] = Inr 0"
| "sum_nodes g f (i # is) =
     (case nodes g i of
        None \<Rightarrow> Inl (KeyError i)
      | Some n \<Rightarrow>
          (case f n of
             Inl e \<Rightarrow> Inl e
           | Inr v \<Rightarrow> (case sum_nodes g f is of Inl e \<Rightarrow> Inl e | Inr s \<Rightarrow> Inr (v + s))))"

text \<open>\<open>s / len(chain)\<close>, true division.\<close>

definition true_div :: "int \<Rightarrow> nat \<Rightarrow> error + rat" where
  "true_div s n = (if n = 0 then Inl ZeroDivisionError else Inr (of_int s / of_nat n))"

text \<open>\<open>len(node.depends_on)\<close>.\<close>

definition len_depends_on :: "CodeNode \<Rightarrow> error + int" where
  "len_depends_on n =
     (case depends_on n of
        None \<Rightarrow> Inl (AttributeError ''depends_on'')
      | Some ds \<Rightarrow> Inr (int (length ds)))"

subsection \<open>Double precision\<close>

text \<open>
  A Python float is an IEEE 754 binary64 number. A finite double is kept as the rational
  number it denotes. Addition, multiplication, division and power return the exact
  result rounded to the nearest double, ties to the even significand of 53 bits.
  Infinities, NaN, overflow and subnormal numbers are outside the model: the importance
  scores stay between 0 and 200.

  \<open>scale_up\<close> doubles a positive number until it reaches \<open>2^52\<close>, \<open>scale_down\<close> halves it
  until it is below \<open>2^53\<close>; both count the exponent.
\<close>

function scale_up :: "rat \<Rightarrow> int \<Rightarrow> rat \<times> int" where
  "scale_up y e = (if 0 < y \<and> y < 2 ^ 52 then scale_up (2 * y) (e - 1) else (y, e))"
  by pat_completeness auto
termination
proof (relation "measure (\<lambda>(y, e). nat \<lfloor>2 ^ 52 / y\<rfloor>)")
  show "wf (measure (\<lambda>(y, e). nat \<lfloor>2 ^ 52 / y\<rfloor>))" by simp
next
  fix y :: rat and e :: int
  assume a: "0 < y \<and> y < 2 ^ 52"
  define t where "t = 2 ^ 52 / y"
  have t1: "1 < t" using a by (simp add: t_def)
  have "2 ^ 52 / (2 * y) = t / 2" by (simp add: t_def)
  moreover have "\<lfloor>t / 2\<rfloor> < \<lfloor>t\<rfloor>"
  proof -
    have "t / 2 < of_int \<lfloor>t\<rfloor>"
    proof -
      have "t < of_int \<lfloor>t\<rfloor> + 1" by linarith
      moreover have "1 \<le> \<lfloor>t\<rfloor>" using t1 by linarith
      then have "(1::rat) \<le> of_int \<lfloor>t\<rfloor>" by linarith
      ultimately show ?thesis by linarith
    qed
    then show ?thesis by (simp add: floor_less_iff)
  qed
  moreover have "0 < \<lfloor>t\<rfloor>" using t1 by linarith
  ultimately show "((2 * y, e - 1), (y, e)) \<in> measure (\<lambda>(y, e). nat \<lfloor>2 ^ 52 / y\<rfloor>)"
    by (simp add: t_def)
qed

function scale_down :: "rat \<Rightarrow> int \<Rightarrow> rat \<times> int" where
  "scale_down y e = (if 2 ^ 53 \<le> y then scale_down (y / 2) (e + 1) else (y, e))"
  by pat_completeness auto
termination
proof (relation "measure (\<lambda>(y, e). nat \<lfloor>y\<rfloor>)")
  show "wf (measure (\<lambda>(y, e). nat \<lfloor>y\<rfloor>))" by simp
next
  fix y :: rat and e :: int
  assume a: "2 ^ 53 \<le> y"
  have y1: "1 \<le> y" using a by (rule order_trans [rotated]) simp
  have "\<lfloor>y / 2\<rfloor> < \<lfloor>y\<rfloor>"
  proof -
    have "y / 2 < of_int \<lfloor>y\<rfloor>"
    proof -
      have "y < of_int \<lfloor>y\<rfloor> + 1" by linarith
      moreover have "1 \<le> \<lfloor>y\<rfloor>" using y1 by linarith
      then have "(1::rat) \<le> of_int \<lfloor>y\<rfloor>" by linarith
      ultimately show ?thesis by linarith
    qed
    then show ?thesis by (simp add: floor_less_iff)
  qed
  moreover have "0 < \<lfloor>y\<rfloor>" using y1 by linarith
  ultimately show "((y / 2, e + 1), (y, e)) \<in> measure (\<lambda>(y, e). nat \<lfloor>y\<rfloor>)"
    by simp
qed

declare scale_up.simps [simp del]

declare scale_down.simps [simp del]

definition pow2 :: "int \<Rightarrow> rat" where
  "pow2 e = (if 0 \<le> e then 2 ^ nat e else 1 / 2 ^ nat (- e))"

text \<open>The nearest integer, a tie going to the even one.\<close>

definition round_half_even :: "rat \<Rightarrow> int" where
  "round_half_even y =
     (let f = \<lfloor>y\<rfloor>; r = y - of_int f in
      if r < 1 / 2 then f
      else if 1 / 2 < r then f + 1
      else if even f then f else f + 1)"

definition round_positive :: "rat \<Rightarrow> rat" where
  "round_positive x =
     (let (y, e) = scale_up x 0; (z, e') = scale_down y e
      in of_int (round_half_even z) * pow2 e')"

definition round_double :: "rat \<Rightarrow> rat" where
  "round_double x =
     (if x = 0 then 0 else if x < 0 then - round_positive (- x) else round_positive x)"

definition double_add :: "rat \<Rightarrow> rat \<Rightarrow> rat" where
  "double_add a b = round_double (a + b)"

definition double_mul :: "rat \<Rightarrow> rat \<Rightarrow> rat" where
  "double_mul a b = round_double (a * b)"

text \<open>\<open>x ** n\<close> for a float \<open>x\<close> and an integer \<open>n >= 0\<close>: \<open>1.0\<close> for \<open>n = 0\<close>, else the power
  of the C library, taken as correctly rounded.\<close>

definition double_pow :: "rat \<Rightarrow> nat \<Rightarrow> rat" where
  "double_pow x n = (if n = 0 then 1 else round_double (x ^ n))"

text \<open>\<open>s / len(chain)\<close> on integers: the quotient, correctly rounded.\<close>

definition int_true_div :: "int \<Rightarrow> nat \<Rightarrow> error + rat" where
  "int_true_div s n =
     (if n = 0 then Inl ZeroDivisionError else Inr (round_double (of_int s / of_nat n)))"

subsection \<open>Phase 1: core chain identification\<close>

text \<open>The loop \<open>for i, node_id in enumerate(chain): score += 40 * (0.7 ** i)\<close>, entered
  with \<open>i = 0\<close> and \<open>score = 0.0\<close>. The literal \<open>0.7\<close> is the double nearest to 7/10.\<close>

fun proximity_loop :: "string list \<Rightarrow> nat \<Rightarrow> rat \<Rightarrow> rat" where
  "proximity_loop [] i score = score"
| "proximity_loop (nid # rest) i score =
     proximity_loop rest (Suc i)
       (double_add score (double_mul 40 (double_pow (round_double (7 / 10)) i)))"

text \<open>\<open>if node.docstring\<close>: an optional string is true when it is present and not empty.\<close>

definition truthy :: "string option \<Rightarrow> bool" where
  "truthy s = (case s of None \<Rightarrow> False | Some t \<Rightarrow> t \<noteq> [])"

text \<open>Each \<open>score += ...\<close> is one rounded addition, in the order of the source.\<close>

definition calculate_chain_importance :: "string list \<Rightarrow> CallGraph \<Rightarrow> error + rat" where
  "calculate_chain_importance chain g =
     (let score1 = proximity_loop chain 0 0 in
      case sum_nodes g (\<lambda>n. Inr (int (length (called_by n)))) chain of
        Inl e \<Rightarrow> Inl e
      | Inr total_called_by \<Rightarrow>
      (case int_true_div total_called_by (length chain) of
        Inl e \<Rightarrow> Inl e
      | Inr avg_called_by \<Rightarrow>
      (let frequency_score = min 30 (double_mul avg_called_by 5);
           score2 = double_add score1 frequency_score in
       case sum_nodes g (\<lambda>n. Inr (complexity n)) chain of
        Inl e \<Rightarrow> Inl e
      | Inr total_complexity \<Rightarrow>
      (case int_true_div total_complexity (length chain) of
        Inl e \<Rightarrow> Inl e
      | Inr avg_complexity \<Rightarrow>
      (let complexity_score = min 20 avg_complexity;
           score3 = double_add score2 complexity_score in
       case sum_nodes g (\<lambda>n. Inr (if truthy (docstring n) then 1 else 0)) chain of
        Inl e \<Rightarrow> Inl e
      | Inr documented_nodes \<Rightarrow>
      (case int_true_div documented_nodes (length chain) of
        Inl e \<Rightarrow> Inl e
      | Inr documented_share \<Rightarrow>
      (let doc_score = double_mul documented_share 10 in
       Inr (double_add score3 doc_score))))))))"

text \<open>
  \<open>identify_core_chains\<close> calls the method \<open>call_graph.get_call_chain(entry_id, max_depth=5)\<close>,
  whose code is not in the sources. The embedding takes the method as the parameter \<open>gcc\<close>:
  a function from the graph, the entry id and the depth to the list of chains, or an error.
\<close>

type_synonym chain_enumerator = "CallGraph \<Rightarrow> string \<Rightarrow> nat \<Rightarrow> error + string list list"

text \<open>The inner loop: score each chain and append \<open>(score, chain)\<close> to the list \<open>chains\<close>, here \<open>scored\<close>.\<close>

fun score_chains ::
  "CallGraph \<Rightarrow> string list list \<Rightarrow> (rat \<times> string list) list
   \<Rightarrow> error + (rat \<times> string list) list" where
  "score_chains g [] scored = Inr scored"
| "score_chains g (chain # rest) scored =
     (case calculate_chain_importance chain g of
        Inl e \<Rightarrow> Inl e
      | Inr score \<Rightarrow> score_chains g rest (scored @ [(score, chain)]))"

text \<open>The outer loop over \<open>call_graph.entry_points\<close>.\<close>

fun entry_loop ::
  "chain_enumerator \<Rightarrow> CallGraph \<Rightarrow> string list \<Rightarrow> (rat \<times> string list) list
   \<Rightarrow> error + (rat \<times> string list) list" where
  "entry_loop gcc g [] scored = Inr scored"
| "entry_loop gcc g (entry_id # rest) scored =
     (case gcc g entry_id 5 of
        Inl e \<Rightarrow> Inl e
      | Inr entry_chains \<Rightarrow>
          (case score_chains g entry_chains scored of
             Inl e \<Rightarrow> Inl e
           | Inr scored' \<Rightarrow> entry_loop gcc g rest scored'))"

text \<open>
  \<open>chains.sort(reverse=True, key=lambda x: x[0])\<close>: Python's sort is stable, also with
  \<open>reverse=True\<close>, so pairs of equal score keep their order. \<open>sort_key\<close> is the stable
  insertion sort; on the negated score it sorts by descending score.
\<close>

definition sort_score_desc :: "(rat \<times> string list) list \<Rightarrow> (rat \<times> string list) list" where
  "sort_score_desc scored = sort_key (\<lambda>x. - fst x) scored"

definition identify_core_chains :: "chain_enumerator \<Rightarrow> CallGraph \<Rightarrow> error + string list list" where
  "identify_core_chains gcc g =
     (case entry_loop gcc g (entry_points g) [] of
        Inl e \<Rightarrow> Inl e
      | Inr scored \<Rightarrow> Inr (map snd (take 10 (sort_score_desc scored))))"

subsection \<open>Chain enumeration\<close>

text \<open>\<open>[x for r in rs for x in r]\<close> over results that may be errors: the first error wins.\<close>

fun concat_results :: "(error + 'a list) list \<Rightarrow> error + 'a list" where
  "concat_results [] = Inr []"
| "concat_results (r # rs) =
     (case r of
        Inl e \<Rightarrow> Inl e
      | Inr xs \<Rightarrow> (case concat_results rs of Inl e \<Rightarrow> Inl e | Inr ys \<Rightarrow> Inr (xs @ ys)))"

text \<open>
  Modelled from the spec: \<open>CallGraph.get_call_chain\<close> is missing from the sources. The
  specification has it enumerate, from an entry point, the simple paths along \<open>calls\<close>
  edges up to \<open>max_depth\<close>; a path never takes a node it already holds. The depth is
  counted in nodes, as the specification's data model bounds the length of a chain by
  the max depth. \<open>walk g k path\<close> extends the non-empty \<open>path\<close> by at most \<open>k\<close>
  more nodes, depth first and in the order of \<open>calls\<close>, and returns the paths that
  cannot or may not grow further. An id that names no node is the specification's
  InputError, and \<open>max_depth <= 0\<close> is its ConfigurationError.
\<close>

fun walk :: "CallGraph \<Rightarrow> nat \<Rightarrow> string list \<Rightarrow> error + string list list" where
  "walk g 0 path = Inr [path]"
| "walk g (Suc k) path =
     (case nodes g (last path) of
        None \<Rightarrow> Inl InputError
      | Some n \<Rightarrow>
          (let fresh = filter (\<lambda>c. c \<notin> set path) (calls n) in
           if fresh = [] then Inr [path]
           else concat_results (map (\<lambda>c. walk g k (path @ [c])) fresh)))"

definition get_call_chain :: chain_enumerator where
  "get_call_chain g entry_id max_depth =
     (if max_depth = 0 then Inl ConfigurationError
      else walk g (max_depth - 1) [entry_id])"

subsection \<open>Phase 2: difficulty scoring\<close>

text \<open>The loop over the chain that accumulates \<open>abstraction_score\<close>.\<close>

fun abstraction_loop :: "CallGraph \<Rightarrow> string list \<Rightarrow> int \<Rightarrow> error + int" where
  "abstraction_loop g [] acc = Inr acc"
| "abstraction_loop g (i # is) acc =
     (case nodes g i of
        None \<Rightarrow> Inl (KeyError i)
      | Some node \<Rightarrow>
          (let a1 = (if decorators node \<noteq> [] then acc + int (length (decorators node)) * 3 else acc);
               a2 = (if is_async node then a1 + 5 else a1);
               a3 = (if is_generator node then a2 + 5 else a2)
           in abstraction_loop g is a3))"

text \<open>The dependency term: \<open>total_deps\<close> and its cap \<open>dep_score\<close>.\<close>

definition dependency_term :: "string list \<Rightarrow> CallGraph \<Rightarrow> error + int" where
  "dependency_term chain g =
     (case sum_nodes g len_depends_on chain of
        Inl e \<Rightarrow> Inl e
      | Inr total_deps \<Rightarrow> Inr (min 25 (total_deps * 2)))"

text \<open>The score of \<open>calculate_difficulty\<close>, statement by statement.\<close>

definition difficulty_score :: "string list \<Rightarrow> CallGraph \<Rightarrow> error + rat" where
  "difficulty_score chain g =
     (let length_score = min 20 (int (length chain) * 4) in
      case sum_nodes g (\<lambda>n. Inr (complexity n)) chain of
        Inl e \<Rightarrow> Inl e
      | Inr total_complexity \<Rightarrow>
      (case true_div total_complexity (length chain) of
        Inl e \<Rightarrow> Inl e
      | Inr avg_complexity \<Rightarrow>
      (let complexity_score = min 30 (avg_complexity * 2) in
       case abstraction_loop g chain 0 of
        Inl e \<Rightarrow> Inl e
      | Inr a \<Rightarrow>
      (let abstraction_score = min 25 a in
       case dependency_term chain g of
        Inl e \<Rightarrow> Inl e
      | Inr dep_score \<Rightarrow>
       Inr (of_int length_score + complexity_score + of_int abstraction_score
            + of_int dep_score)))))"

definition calculate_difficulty :: "string list \<Rightarrow> CallGraph \<Rightarrow> error + Difficulty" where
  "calculate_difficulty chain g =
     (case difficulty_score chain g of
        Inl e \<Rightarrow> Inl e
      | Inr score \<Rightarrow>
          Inr (if score < 20 then TUTORIAL
               else if score < 40 then BASIC
               else if score < 60 then INTERMEDIATE
               else if score < 80 then ADVANCED
               else EXPERT))"

text \<open>
  The score as the specification words it, over the chain's nodes: four capped terms.
  A node's dependency count is the size of its \<open>depends_on\<close> collection.
\<close>

definition spec_abstraction :: "CodeNode \<Rightarrow> int" where
  "spec_abstraction n =
     3 * int (length (decorators n)) + (if is_async n then 5 else 0)
     + (if is_generator n then 5 else 0)"

definition spec_dependency_count :: "CodeNode \<Rightarrow> int" where
  "spec_dependency_count n = (case depends_on n of None \<Rightarrow> 0 | Some ds \<Rightarrow> int (length ds))"

definition spec_difficulty_score :: "CodeNode list \<Rightarrow> rat" where
  "spec_difficulty_score ns =
     min 20 (4 * of_nat (length ns))
     + min 30 (2 * (of_int (sum_list (map complexity ns)) / of_nat (length ns)))
     + min 25 (of_int (sum_list (map spec_abstraction ns)))
     + min 25 (2 * of_int (sum_list (map spec_dependency_count ns)))"

subsection \<open>Phase 3: challenge type selection\<close>

text \<open>\<open>any(p(graph.nodes[id]) for id in chain)\<close> stops at the first node where \<open>p\<close> holds.\<close>

fun any_nodes :: "CallGraph \<Rightarrow> (CodeNode \<Rightarrow> bool) \<Rightarrow> string list \<Rightarrow> error + bool" where
  "any_nodes g p [] = Inr False"
| "any_nodes g p (i # is) =
     (case nodes g i of
        None \<Rightarrow> Inl (KeyError i)
      | Some n \<Rightarrow> if p n then Inr True else any_nodes g p is)"

definition select_challenge_types ::
  "string list \<Rightarrow> Difficulty \<Rightarrow> CallGraph \<Rightarrow> error + ChallengeType list" where
  "select_challenge_types chain difficulty g =
     (let c0 = [MULTIPLE_CHOICE];
          c1 = (if 3 \<le> length chain then c0 @ [CODE_TRACING] else c0) in
      case sum_nodes g (\<lambda>n. Inr (complexity n)) chain of
        Inl e \<Rightarrow> Inl e
      | Inr total_complexity \<Rightarrow>
      (case true_div total_complexity (length chain) of
        Inl e \<Rightarrow> Inl e
      | Inr avg_complexity \<Rightarrow>
      (case any_nodes g (\<lambda>n. decorators n \<noteq> []) chain of
        Inl e \<Rightarrow> Inl e
      | Inr has_decorators \<Rightarrow>
      (case any_nodes g is_async chain of
        Inl e \<Rightarrow> Inl e
      | Inr has_async \<Rightarrow>
      (let c2 = (if has_decorators \<or> rank INTERMEDIATE \<le> rank difficulty
                 then c1 @ [FILL_BLANK] else c1);
           c3 = (if rank INTERMEDIATE \<le> rank difficulty then c2 @ [CODE_COMPLETION] else c2);
           c4 = (if 10 < avg_complexity then c3 @ [DEBUGGING] else c3);
           c5 = (if rank ADVANCED \<le> rank difficulty then c4 @ [ARCHITECTURE] else c4)
       in Inr (take 5 c5))))))"

subsection \<open>Phase 4: question generation\<close>

text \<open>Python's \<open>str\<close> on an integer: decimal digits, with a minus sign below zero.\<close>

fun str_nat :: "nat \<Rightarrow> string" where
  "str_nat n =
     (if n < 10 then [char_of (48 + n)]
      else str_nat (n div 10) @ [char_of (48 + n mod 10)])"

declare str_nat.simps [simp del]

definition py_str :: "int \<Rightarrow> string" where
  "py_str i = (if i < 0 then CHR ''-'' # str_nat (nat (- i)) else str_nat (nat i))"

text \<open>The payloads of a challenge are dictionaries and lists of plain values.\<close>

datatype json =
    JNull
  | JBool bool
  | JInt int
  | JStr string
  | JList "json list"
  | JDict "(string \<times> json) list"

text \<open>\<open>Challenge(type=..., question=..., answer=...)\<close>, as the generators build it.\<close>

record Challenge =
  ch_type :: ChallengeType
  ch_question :: json
  ch_answer :: json

record Level =
  lv_id :: string
  lv_name :: string
  lv_description :: string
  lv_difficulty :: Difficulty
  lv_entry_function :: string
  lv_call_chain :: "string list"
  lv_code_snippet :: string
  lv_challenges :: "Challenge list"
  lv_objectives :: "string list"
  lv_xp_reward :: int
  lv_estimated_time :: int
  lv_prerequisites :: "string list"

text \<open>One entry of \<open>templates\<close> in \<open>generate_multiple_choice\<close>.\<close>

record Template =
  tpl_question :: string
  tpl_correct :: string
  tpl_distractors :: "string list"

text \<open>
  The generator calls functions whose code is not in the sources. They are the fields
  of \<open>Externals\<close>, each a function of the arguments the call passes.
\<close>

record Externals =
  call_chain_method :: chain_enumerator
  generate_plausible_functions :: "CallGraph \<Rightarrow> string list"
  create_mc_challenge :: "Template \<Rightarrow> Challenge"
  generate_sample_input :: "string \<Rightarrow> CallGraph \<Rightarrow> json"
  compute_value :: "string \<Rightarrow> json"
  generate_level_name :: "string list \<Rightarrow> Difficulty \<Rightarrow> string"
  generate_description :: "string list \<Rightarrow> CallGraph \<Rightarrow> string"
  extract_relevant_code :: "string list \<Rightarrow> CallGraph \<Rightarrow> string"
  calculate_xp_reward :: "Difficulty \<Rightarrow> int"
  estimate_time :: "Challenge list \<Rightarrow> int"
  determine_prerequisites :: "nat \<Rightarrow> Level list \<Rightarrow> string list"

text \<open>
  The random generator is the stream of numbers it will draw next. \<open>random.choice(seq)\<close>
  takes the next number, returns the element at that number modulo \<open>len(seq)\<close> and
  leaves the rest of the stream; on an empty sequence it raises \<open>IndexError\<close>.
\<close>

type_synonym rng = "nat \<Rightarrow> nat"

definition random_choice :: "rng \<Rightarrow> 'a list \<Rightarrow> error + ('a \<times> rng)" where
  "random_choice r xs =
     (if xs = [] then Inl IndexError
      else Inr (xs ! (r 0 mod length xs), (\<lambda>i. r (Suc i))))"

text \<open>The list \<open>templates\<close> of \<open>generate_multiple_choice\<close>.\<close>

definition templates :: "Externals \<Rightarrow> CodeNode \<Rightarrow> CallGraph \<Rightarrow> Template list" where
  "templates ext node g =
     [\<lparr> tpl_question = ''What does '' @ node_name node @ ''() return?'',
        tpl_correct = (if truthy (return_type node) then the (return_type node) else ''None''),
        tpl_distractors = [''str'', ''dict'', ''list'', ''object''] \<rparr>,
      \<lparr> tpl_question = ''How many parameters does '' @ node_name node @ ''() accept?'',
        tpl_correct = py_str (int (length (parameters node))),
        tpl_distractors = map (\<lambda>i. py_str (int (length (parameters node)) + i)) [- 1, 1, 2] \<rparr>,
      \<lparr> tpl_question = ''Which function does '' @ node_name node @ ''() call first?'',
        tpl_correct = (if calls node \<noteq> [] then hd (calls node) else ''None''),
        tpl_distractors = generate_plausible_functions ext g \<rparr>]"

text \<open>\<open>template = random.choice(templates)\<close>.\<close>

definition choose_template ::
  "Externals \<Rightarrow> CodeNode \<Rightarrow> CallGraph \<Rightarrow> rng \<Rightarrow> error + (Template \<times> rng)" where
  "choose_template ext node g r = random_choice r (templates ext node g)"

definition generate_multiple_choice ::
  "Externals \<Rightarrow> CodeNode \<Rightarrow> CallGraph \<Rightarrow> rng \<Rightarrow> error + (Challenge \<times> rng)" where
  "generate_multiple_choice ext node g r =
     (case choose_template ext node g r of
        Inl e \<Rightarrow> Inl e
      | Inr (template, r') \<Rightarrow> Inr (create_mc_challenge ext template, r'))"

text \<open>\<open>chain[0]\<close> and \<open>chain[-1]\<close> raise \<open>IndexError\<close> on an empty chain.\<close>

definition generate_code_tracing :: "Externals \<Rightarrow> string list \<Rightarrow> CallGraph \<Rightarrow> error + Challenge" where
  "generate_code_tracing ext chain g =
     (if chain = [] then Inl IndexError
      else Inr
        \<lparr> ch_type = CODE_TRACING,
          ch_question = JDict
            [(''prompt'', JStr (''Trace the execution from '' @ hd chain @ '' to '' @ last chain)),
             (''input'', generate_sample_input ext (hd chain) g),
             (''steps'', JList (map (\<lambda>(i, nid). JDict
                [(''step'', JInt (int i + 1)), (''function'', JStr nid), (''blank'', JBool True)])
                (enumerate 0 chain)))],
          ch_answer = JDict
            [(''steps'', JList (map (\<lambda>(i, nid). JDict
                [(''step'', JInt (int i + 1)), (''function'', JStr nid),
                 (''value'', compute_value ext nid)])
                (enumerate 0 chain)))] \<rparr>)"

subsection \<open>Phase 5: objectives\<close>

fun objectives_loop :: "CallGraph \<Rightarrow> string list \<Rightarrow> string list \<Rightarrow> error + string list" where
  "objectives_loop g [] objs = Inr objs"
| "objectives_loop g (i # is) objs =
     (case nodes g i of
        None \<Rightarrow> Inl (KeyError i)
      | Some node \<Rightarrow>
          (let o1 = (if decorators node \<noteq> []
                     then objs @ [''Understand '' @ hd (decorators node) @ '' decorator pattern'']
                     else objs);
               o2 = (if is_async node then o1 @ [''Learn async/await pattern''] else o1);
               o3 = (if 15 < complexity node
                     then o2 @ [''Master '' @ node_name node @ [CHR 0x27] @ ''s control flow'']
                     else o2)
           in objectives_loop g is o3))"

definition generate_objectives :: "string list \<Rightarrow> CallGraph \<Rightarrow> error + string list" where
  "generate_objectives chain g =
     (case objectives_loop g chain [] of
        Inl e \<Rightarrow> Inl e
      | Inr objs \<Rightarrow>
          if chain = [] then Inl IndexError
          else Inr (take 3
            ((''Trace execution from '' @ hd chain @ '' to '' @ last chain) # objs)))"

subsection \<open>The complete flow\<close>

text \<open>\<open>xs[:n]\<close>: a negative \<open>n\<close> drops the last \<open>-n\<close> elements.\<close>

definition py_take :: "int \<Rightarrow> 'a list \<Rightarrow> 'a list" where
  "py_take n xs =
     (if 0 \<le> n then take (nat n) xs else take (nat (int (length xs) + n)) xs)"

text \<open>
  \<open>generate_levels\<close> passes the name \<open>node\<close> to \<open>generate_multiple_choice\<close>. The function has
  no parameter and no assignment of that name, and the module defines none: the name
  has no binding, and reading it raises \<open>NameError\<close> before the call is made.
\<close>

definition name_node :: "CodeNode option" where
  "name_node = None"

text \<open>
  The loop over \<open>challenge_types\<close>; \<open>acc\<close> is the list \<open>challenges\<close>. The source has a
  branch for MULTIPLE\_CHOICE and one for CODE\_TRACING. For every other type no branch
  assigns \<open>challenge\<close>, and \<open>challenges.append(challenge)\<close> appends the value that the
  variable still holds; \<open>ch\<close> is that variable, \<open>None\<close> while it is unassigned.
\<close>

fun challenge_loop ::
  "Externals \<Rightarrow> CallGraph \<Rightarrow> string list \<Rightarrow> ChallengeType list \<Rightarrow> rng \<Rightarrow> Challenge option
   \<Rightarrow> Challenge list \<Rightarrow> error + (Challenge list \<times> rng \<times> Challenge option)" where
  "challenge_loop ext g chain [] r ch acc = Inr (acc, r, ch)"
| "challenge_loop ext g chain (ctype # rest) r ch acc =
     (if ctype = MULTIPLE_CHOICE then
        (case name_node of
           None \<Rightarrow> Inl (NameError ''node'')
         | Some node \<Rightarrow>
             (case generate_multiple_choice ext node g r of
                Inl e \<Rightarrow> Inl e
              | Inr (challenge, r') \<Rightarrow>
                  challenge_loop ext g chain rest r' (Some challenge) (acc @ [challenge])))
      else if ctype = CODE_TRACING then
        (case generate_code_tracing ext chain g of
           Inl e \<Rightarrow> Inl e
         | Inr challenge \<Rightarrow>
             challenge_loop ext g chain rest r (Some challenge) (acc @ [challenge]))
      else
        (case ch of
           None \<Rightarrow> Inl (UnboundLocalError ''challenge'')
         | Some challenge \<Rightarrow> challenge_loop ext g chain rest r ch (acc @ [challenge])))"

text \<open>The loop \<open>for i, chain in enumerate(core_chains[:max_levels])\<close>. The variable
  \<open>challenge\<close> is local to the function and lives on from one chain to the next.\<close>

fun level_loop ::
  "Externals \<Rightarrow> CallGraph \<Rightarrow> string list list \<Rightarrow> nat \<Rightarrow> rng \<Rightarrow> Challenge option \<Rightarrow> Level list
   \<Rightarrow> error + Level list" where
  "level_loop ext g [] i r ch levels = Inr levels"
| "level_loop ext g (chain # rest) i r ch levels =
     (case calculate_difficulty chain g of
        Inl e \<Rightarrow> Inl e
      | Inr d \<Rightarrow>
      (case select_challenge_types chain d g of
        Inl e \<Rightarrow> Inl e
      | Inr challenge_types \<Rightarrow>
      (case challenge_loop ext g chain challenge_types r ch [] of
        Inl e \<Rightarrow> Inl e
      | Inr (cs, r', ch') \<Rightarrow>
      (if chain = [] then Inl IndexError
       else
      (case generate_objectives chain g of
        Inl e \<Rightarrow> Inl e
      | Inr objs \<Rightarrow>
          level_loop ext g rest (Suc i) r' ch'
            (levels @
             [\<lparr> lv_id = ''level_'' @ py_str (int i + 1),
                lv_name = generate_level_name ext chain d,
                lv_description = generate_description ext chain g,
                lv_difficulty = d,
                lv_entry_function = hd chain,
                lv_call_chain = chain,
                lv_code_snippet = extract_relevant_code ext chain g,
                lv_challenges = cs,
                lv_objectives = objs,
                lv_xp_reward = calculate_xp_reward ext d,
                lv_estimated_time = estimate_time ext cs,
                lv_prerequisites = determine_prerequisites ext i levels \<rparr>]))))))"

definition generate_levels :: "Externals \<Rightarrow> rng \<Rightarrow> CallGraph \<Rightarrow> int \<Rightarrow> error + Level list" where
  "generate_levels ext r g max_levels =
     (case identify_core_chains (call_chain_method ext) g of
        Inl e \<Rightarrow> Inl e
      | Inr core_chains \<Rightarrow> level_loop ext g (py_take max_levels core_chains) 0 r None [])"

subsection \<open>Predicates and examples\<close>

text \<open>The chain's ids all name nodes of the graph, and these are the nodes.\<close>

definition resolves :: "CallGraph \<Rightarrow> string list \<Rightarrow> CodeNode list \<Rightarrow> bool" where
  "resolves g chain ns = (map (nodes g) chain = map Some ns)"

text \<open>A node to build examples from: a plain function with nothing attached.\<close>

definition plain_node :: "string \<Rightarrow> CodeNode" where
  "plain_node i =
     \<lparr> node_id = i, node_name = i, node_type = FUNCTION, language = PYTHON,
       file_path = ''app.py'', line_start = 1, line_end = 2, parameters = [],
       return_type = None, decorators = [], calls = [], called_by = [], docstring = None,
       complexity = 1, loc = 2, is_async = False, is_generator = False,
       depends_on = Some [] \<rparr>"

text \<open>A graph whose \<open>nodes\<close> dictionary holds the given nodes under their ids.\<close>

definition graph_of :: "CodeNode list \<Rightarrow> string list \<Rightarrow> CallGraph" where
  "graph_of ns eps =
     \<lparr> nodes = map_of (map (\<lambda>n. (node_id n, n)) ns), edges = [], entry_points = eps \<rparr>"

text \<open>Three decorated nodes of complexity 12, and a node without \<open>depends_on\<close>.\<close>

definition decorated_node :: "string \<Rightarrow> CodeNode" where
  "decorated_node i = (plain_node i)\<lparr> decorators := [''route''], complexity := 12 \<rparr>"

definition bare_node :: "string \<Rightarrow> CodeNode" where
  "bare_node i = (plain_node i)\<lparr> depends_on := None \<rparr>"

definition abc_graph :: CallGraph where
  "abc_graph = graph_of [decorated_node ''a'', decorated_node ''b'', decorated_node ''c''] [''a'']"

definition bare_graph :: CallGraph where
  "bare_graph = graph_of [plain_node ''a'', bare_node ''b''] [''a'']"

definition deps_graph :: CallGraph where
  "deps_graph = graph_of [(plain_node ''a'')\<lparr> depends_on := Some [''os'', ''re''] \<rparr>] [''a'']"

text \<open>The graph of one entry point \<open>f\<close> that calls nothing.\<close>

definition single_graph :: CallGraph where
  "single_graph = graph_of [plain_node ''f''] [''f'']"

text \<open>Two entry points \<open>b\<close> and \<open>a\<close>, alike but for their ids, listed in this order.\<close>

definition tie_graph :: CallGraph where
  "tie_graph = graph_of [plain_node ''b'', plain_node ''a''] [''b'', ''a'']"

text \<open>
  An entry point \<open>x\<close> that calls \<open>y\<close>, and a documented, recursive entry point \<open>e\<close> of
  complexity 16: the chains \<open>[x, y]\<close> and \<open>[e]\<close> both score 71.
\<close>

definition length_tie_graph :: CallGraph where
  "length_tie_graph =
     graph_of
       [(plain_node ''x'')\<lparr> calls := [''y''], complexity := 0 \<rparr>,
        (plain_node ''y'')\<lparr> called_by := [''x''] \<rparr>,
        (plain_node ''e'')\<lparr> calls := [''e''], called_by := [''e''], complexity := 16,
           docstring := Some ''Dispatch one event.'' \<rparr>]
       [''x'', ''e'']"

text \<open>\<open>a\<close> calls \<open>b\<close> and \<open>b\<close> calls \<open>a\<close>.\<close>

definition cyclic_graph :: CallGraph where
  "cyclic_graph =
     graph_of
       [(plain_node ''a'')\<lparr> calls := [''b''], called_by := [''b''] \<rparr>,
        (plain_node ''b'')\<lparr> calls := [''a''], called_by := [''a''] \<rparr>]
       [''a'']"

text \<open>Every call target of every node is a node of the graph.\<close>

definition closed_graph :: "CallGraph \<Rightarrow> bool" where
  "closed_graph g = (\<forall>i n. nodes g i = Some n \<longrightarrow> set (calls n) \<subseteq> dom (nodes g))"




text \<open>A function \<open>parse\<close> that returns \<open>str\<close>.\<close>

definition parse_node :: CodeNode where
  "parse_node = (plain_node ''parse'')\<lparr> return_type := Some ''str'' \<rparr>"

text \<open>Random generators whose every draw is 0, or 1.\<close>

definition draws_0 :: rng where
  "draws_0 i = 0"

definition draws_1 :: rng where
  "draws_1 i = 1"


text \<open>The entry-proximity sum in exact arithmetic: \<open>40 * 0.7^i\<close> over the first \<open>n\<close>
  positions.\<close>

definition exact_proximity :: "nat \<Rightarrow> rat" where
  "exact_proximity n = (\<Sum>i<n. 40 * (7 / 10) ^ i)"

text \<open>The number that a string of decimal digits writes.\<close>

definition digits_value :: "string \<Rightarrow> nat" where
  "digits_value s = foldl (\<lambda>a c. 10 * a + (of_char c - 48)) 0 s"

text \<open>
  Two entry points \<open>q\<close> and \<open>p\<close>, each with one chain of three functions; \<open>h\<close> is a
  further caller of \<open>p1\<close>. In exact arithmetic both chains score 1414/15.
\<close>

definition rounding_graph :: CallGraph where
  "rounding_graph =
     graph_of
       [(plain_node ''q'')\<lparr> calls := [''q1''], complexity := 0 \<rparr>,
        (plain_node ''q1'')\<lparr> calls := [''q2''], called_by := [''q''], complexity := 0,
           docstring := Some ''Parse one line.'' \<rparr>,
        (plain_node ''q2'')\<lparr> called_by := [''q1''], complexity := 0 \<rparr>,
        (plain_node ''p'')\<lparr> calls := [''p1''], complexity := 4 \<rparr>,
        (plain_node ''p1'')\<lparr> calls := [''p2''], called_by := [''p'', ''h''] \<rparr>,
        (plain_node ''p2'')\<lparr> called_by := [''p1''], complexity := 0 \<rparr>,
        (plain_node ''h'')\<lparr> calls := [''p1''] \<rparr>]
       [''q'', ''p'']"

section \<open>Properties\<close>

subsection \<open>Reading the graph\<close>

lemma resolves_Nil [simp]: "resolves g [] ns \<longleftrightarrow> ns = []"
  by (auto simp: resolves_def)

lemma resolves_Cons:
  "resolves g (i # is) ns \<longleftrightarrow> (\<exists>n ns'. ns = n # ns' \<and> nodes g i = Some n \<and> resolves g is ns')"
  by (cases ns) (auto simp: resolves_def)

lemma resolves_length: "resolves g chain ns \<Longrightarrow> length ns = length chain"
  unfolding resolves_def by (metis length_map)

lemma sum_nodes_resolves:
  "resolves g chain ns \<Longrightarrow> \<forall>n \<in> set ns. f n = Inr (h n)
   \<Longrightarrow> sum_nodes g f chain = Inr (sum_list (map h ns))"
  by (induction chain arbitrary: ns) (auto simp: resolves_Cons)

lemma abstraction_loop_resolves:
  "resolves g chain ns
   \<Longrightarrow> abstraction_loop g chain acc = Inr (acc + sum_list (map spec_abstraction ns))"
  by (induction chain arbitrary: ns acc)
     (auto simp: resolves_Cons spec_abstraction_def Let_def)

subsection \<open>Difficulty scoring\<close>

lemma dependency_term_resolves:
  "resolves g chain ns \<Longrightarrow> \<forall>n \<in> set ns. depends_on n \<noteq> None
   \<Longrightarrow> dependency_term chain g = Inr (min 25 (2 * sum_list (map spec_dependency_count ns)))"
  unfolding dependency_term_def
  by (subst sum_nodes_resolves [where h = spec_dependency_count and ns = ns])
     (auto simp: len_depends_on_def spec_dependency_count_def mult.commute)

lemma difficulty_score_resolves:
  assumes "chain \<noteq> []" "resolves g chain ns" "\<forall>n \<in> set ns. depends_on n \<noteq> None"
  shows "difficulty_score chain g = Inr (spec_difficulty_score ns)"
proof -
  have len: "length ns = length chain" using assms(2) by (rule resolves_length)
  have c: "sum_nodes g (\<lambda>n. Inr (complexity n)) chain = Inr (sum_list (map complexity ns))"
    using assms(2) by (rule sum_nodes_resolves) simp
  have a: "abstraction_loop g chain 0 = Inr (sum_list (map spec_abstraction ns))"
    using abstraction_loop_resolves [OF assms(2), of 0] by simp
  have d: "dependency_term chain g = Inr (min 25 (2 * sum_list (map spec_dependency_count ns)))"
    using assms(2,3) by (rule dependency_term_resolves)
  show ?thesis
    using assms(1)
    by (simp add: difficulty_score_def c a d true_div_def spec_difficulty_score_def len
        Let_def of_int_min mult.commute)
qed

text \<open>
  C7. For a non-empty chain whose ids all name nodes that carry \<open>depends_on\<close>,
  \<open>calculate_difficulty\<close> returns a tier, and the tier is the band of the specification's
  score: the four capped terms for length, mean complexity, abstraction and
  dependencies, with TUTORIAL below 20, BASIC from 20 to below 40, INTERMEDIATE from 40
  to below 60, ADVANCED from 60 to below 80 and EXPERT from 80 on.
\<close>

theorem calculate_difficulty_formula:
  assumes "chain \<noteq> []" "resolves g chain ns" "\<forall>n \<in> set ns. depends_on n \<noteq> None"
  shows "\<exists>d. calculate_difficulty chain g = Inr d
     \<and> (d = TUTORIAL \<longleftrightarrow> spec_difficulty_score ns < 20)
     \<and> (d = BASIC \<longleftrightarrow> 20 \<le> spec_difficulty_score ns \<and> spec_difficulty_score ns < 40)
     \<and> (d = INTERMEDIATE \<longleftrightarrow> 40 \<le> spec_difficulty_score ns \<and> spec_difficulty_score ns < 60)
     \<and> (d = ADVANCED \<longleftrightarrow> 60 \<le> spec_difficulty_score ns \<and> spec_difficulty_score ns < 80)
     \<and> (d = EXPERT \<longleftrightarrow> 80 \<le> spec_difficulty_score ns)"
  by (simp add: calculate_difficulty_def difficulty_score_resolves [OF assms])

lemma abc_graph_resolves:
  "resolves abc_graph [''a'', ''b'', ''c'']
     [decorated_node ''a'', decorated_node ''b'', decorated_node ''c'']"
  by (simp add: resolves_def abc_graph_def graph_of_def decorated_node_def plain_node_def)

lemma abc_graph_score:
  "spec_difficulty_score [decorated_node ''a'', decorated_node ''b'', decorated_node ''c''] = 45"
  by (simp add: spec_difficulty_score_def spec_abstraction_def spec_dependency_count_def
      decorated_node_def plain_node_def)

theorem calculate_difficulty_formula_witness:
  "calculate_difficulty [''a'', ''b'', ''c''] abc_graph = Inr INTERMEDIATE
   \<and> spec_difficulty_score [decorated_node ''a'', decorated_node ''b'', decorated_node ''c'']
     = 45"
  using calculate_difficulty_formula [OF _ abc_graph_resolves] abc_graph_score
  by (auto simp: decorated_node_def plain_node_def)

lemma sum_nodes_AttributeError:
  "resolves g chain ns \<Longrightarrow> \<exists>n \<in> set ns. depends_on n = None
   \<Longrightarrow> sum_nodes g len_depends_on chain = Inl (AttributeError ''depends_on'')"
proof (induction chain arbitrary: ns)
  case Nil
  then show ?case by simp
next
  case (Cons i chain)
  from Cons.prems(1) obtain n ns' where ns: "ns = n # ns'" and n: "nodes g i = Some n"
    and r: "resolves g chain ns'"
    by (auto simp: resolves_Cons)
  show ?case
  proof (cases "depends_on n")
    case None
    then have "len_depends_on n = Inl (AttributeError ''depends_on'')"
      by (simp add: len_depends_on_def)
    then show ?thesis by (simp add: n)
  next
    case (Some ds)
    then have l: "len_depends_on n = Inr (int (length ds))"
      by (simp add: len_depends_on_def)
    have "\<exists>m \<in> set ns'. depends_on m = None" using Some Cons.prems(2) ns by auto
    then have "sum_nodes g len_depends_on chain = Inl (AttributeError ''depends_on'')"
      using Cons.IH r by blast
    then show ?thesis by (simp add: n l)
  qed
qed

text \<open>
  C10. \<open>calculate_difficulty\<close> reads \<open>depends_on\<close> from every node of the chain. When
  every node carries the collection, the dependency term is the minimum of 25 and twice
  the summed sizes of the collections. When some node lacks it, the dependency term and
  the whole classifier fail with \<open>AttributeError\<close>: the node does not count as zero.
\<close>

theorem depends_on_required:
  assumes "resolves g chain ns"
  shows "if \<forall>n \<in> set ns. depends_on n \<noteq> None
         then dependency_term chain g
              = Inr (min 25 (2 * (\<Sum>n\<leftarrow>ns. int (length (the (depends_on n))))))
         else dependency_term chain g = Inl (AttributeError ''depends_on'')
              \<and> calculate_difficulty chain g = Inl (AttributeError ''depends_on'')"
proof (cases "\<forall>n \<in> set ns. depends_on n \<noteq> None")
  case True
  have "map spec_dependency_count ns = map (\<lambda>n. int (length (the (depends_on n)))) ns"
    using True by (auto simp: spec_dependency_count_def)
  then have "sum_list (map spec_dependency_count ns)
      = (\<Sum>n\<leftarrow>ns. int (length (the (depends_on n))))"
    by (rule arg_cong)
  then show ?thesis
    using True dependency_term_resolves [OF assms True] by simp
next
  case False
  then have ex: "\<exists>n \<in> set ns. depends_on n = None" by simp
  then have ne: "chain \<noteq> []" using assms by auto
  have len: "length ns = length chain" using assms by (rule resolves_length)
  have c: "sum_nodes g (\<lambda>n. Inr (complexity n)) chain = Inr (sum_list (map complexity ns))"
    using assms by (rule sum_nodes_resolves) simp
  have a: "abstraction_loop g chain 0 = Inr (sum_list (map spec_abstraction ns))"
    using abstraction_loop_resolves [OF assms, of 0] by simp
  have d: "dependency_term chain g = Inl (AttributeError ''depends_on'')"
    by (simp add: dependency_term_def sum_nodes_AttributeError [OF assms ex])
  show ?thesis
    using False ne
    by (simp add: d calculate_difficulty_def difficulty_score_def c a true_div_def Let_def)
qed

theorem depends_on_required_witness:
  "dependency_term [''a'', ''b''] bare_graph = Inl (AttributeError ''depends_on'')
   \<and> calculate_difficulty [''a'', ''b''] bare_graph = Inl (AttributeError ''depends_on'')
   \<and> dependency_term [''a''] deps_graph = Inr 4"
  using depends_on_required [of bare_graph "[''a'', ''b'']" "[plain_node ''a'', bare_node ''b'']"]
    depends_on_required [of deps_graph "[''a'']"
      "[(plain_node ''a'')\<lparr> depends_on := Some [''os'', ''re''] \<rparr>]"]
  by (simp add: resolves_def graph_of_def bare_graph_def deps_graph_def bare_node_def
      plain_node_def)

subsection \<open>Challenge type selection\<close>

lemma select_challenge_types_shape:
  assumes "select_challenge_types chain d g = Inr tys"
  shows "1 \<le> length tys \<and> length tys \<le> 5 \<and> distinct tys \<and> hd tys = MULTIPLE_CHOICE"
  using assms
  by (auto simp: select_challenge_types_def Let_def split: sum.splits if_splits)

text \<open>
  C8. A chain of one node \<open>f\<close> that has no calls and no decorators and is neither async
  nor a generator, with a difficulty score below 20, is classified TUTORIAL, and
  \<open>select_challenge_types\<close> returns the list that holds MULTIPLE\_CHOICE and nothing else.
\<close>

theorem scenario_single_node:
  assumes "nodes g f = Some n" "calls n = []" "decorators n = []"
    "\<not> is_async n" "\<not> is_generator n"
    "difficulty_score [f] g = Inr s" "s < 20"
  shows "calculate_difficulty [f] g = Inr TUTORIAL
       \<and> select_challenge_types [f] TUTORIAL g = Inr [MULTIPLE_CHOICE]"
proof -
  have d: "calculate_difficulty [f] g = Inr TUTORIAL"
    using assms(6,7) by (simp add: calculate_difficulty_def)
  obtain dep where dep: "dependency_term [f] g = Inr dep"
    and s: "s = 4 + min 30 (of_int (complexity n) * 2) + of_int dep"
    using assms(1,3,4,5,6)
    by (auto simp: difficulty_score_def true_div_def Let_def split: sum.splits)
  have "0 \<le> dep"
    using dep assms(1)
    by (auto simp: dependency_term_def len_depends_on_def split: sum.splits option.splits)
  then have "min 30 (rat_of_int (complexity n) * 2) < 16"
    using s assms(7) by simp
  then have "rat_of_int (complexity n) * 2 < 16" by simp
  then have c: "\<not> 10 < rat_of_int (complexity n)" by simp
  have "select_challenge_types [f] TUTORIAL g = Inr [MULTIPLE_CHOICE]"
    using assms(1,3,4) c
    by (simp add: select_challenge_types_def true_div_def Let_def)
  with d show ?thesis by simp
qed

theorem scenario_single_node_witness:
  "calculate_difficulty [''f''] single_graph = Inr TUTORIAL
   \<and> select_challenge_types [''f''] TUTORIAL single_graph = Inr [MULTIPLE_CHOICE]"
  using scenario_single_node [of single_graph "''f''" "plain_node ''f''" 6]
  by (simp add: single_graph_def graph_of_def plain_node_def difficulty_score_def
      dependency_term_def len_depends_on_def true_div_def)

text \<open>
  C2. The docstring of \<open>select_challenge_types\<close> promises 3 to 5 types and its last comment
  reads "Ensure 3-5 challenges", but the last statement only cuts the list at 5. For the
  one-node chain of \<open>single_graph\<close> at TUTORIAL the function returns a single type.
\<close>

theorem select_challenge_types_below_minimum:
  "select_challenge_types [''f''] TUTORIAL single_graph = Inr [MULTIPLE_CHOICE]
   \<and> length [MULTIPLE_CHOICE] < (3::nat)"
  by (simp add: select_challenge_types_def single_graph_def graph_of_def plain_node_def
      true_div_def)

subsection \<open>Double precision\<close>

lemma floor_numeral_div_rat:
  "\<lfloor>numeral a / numeral b :: rat\<rfloor> = numeral a div numeral b"
  using floor_divide_of_int_eq [of "numeral a" "numeral b", where ?'a = rat] by simp

lemmas double_eval = round_double_def round_positive_def round_half_even_def pow2_def
  scale_up.simps scale_down.simps Let_def floor_numeral_div_rat
  double_add_def double_mul_def double_pow_def int_true_div_def

subsection \<open>Chain ranking\<close>

lemma proximity_one: "proximity_loop [a] 0 0 = 40"
  by (simp add: double_eval)

lemma proximity_two: "proximity_loop [a, b] 0 0 = 68"
  by (simp add: double_eval)

lemma proximity_three: "proximity_loop [a, b, c] 0 0 = 3082150994981683 / 35184372088832"
  by (simp add: double_eval)

text \<open>
  The sum of \<open>40 * 0.7^i\<close> over the positions of a chain, in exact arithmetic, is at least
  68 from two positions on; in doubles the chains of two and three nodes get 68 and
  about 87.6.
\<close>

lemma exact_proximity_above_budget:
  assumes "2 \<le> n"
  shows "68 \<le> exact_proximity n"
proof -
  from assms obtain k where n: "n = Suc (Suc k)"
    by (metis Suc_le_D numeral_2_eq_2 Suc_le_mono)
  have "exact_proximity n
      = 40 + (28 + (\<Sum>i<k. 40 * (7 / 10 :: rat) ^ Suc (Suc i)))"
    unfolding n exact_proximity_def
    by (simp only: sum.lessThan_Suc_shift) simp
  moreover have "0 \<le> (\<Sum>i<k. 40 * (7 / 10 :: rat) ^ Suc (Suc i))"
    by (rule sum_nonneg) simp
  ultimately show ?thesis by simp
qed

text \<open>
  C4. The entry-proximity component adds \<open>40 * 0.7^i\<close> for every position of the chain
  and does not stay within the 40 points that the comment above the loop states: the
  chain \<open>[x, y]\<close> already gets 68.
\<close>

theorem proximity_exceeds_budget:
  "proximity_loop [''x'', ''y''] 0 0 = 68
   \<and> \<not> proximity_loop [''x'', ''y''] 0 0 \<le> 40
   \<and> calculate_chain_importance [''x'', ''y''] length_tie_graph = Inr 71"
  by (simp add: calculate_chain_importance_def proximity_two length_tie_graph_def graph_of_def
      plain_node_def truthy_def double_eval)

lemma sort_score_desc_sorted: "sorted_wrt (\<lambda>x y. fst y \<le> fst x) (sort_score_desc scored)"
proof -
  have "sorted (map (\<lambda>x. - fst x) (sort_score_desc scored))"
    unfolding sort_score_desc_def by (rule sorted_sort_key)
  then show ?thesis
    by (simp add: sorted_map sorted_wrt_iff_nth_less)
qed

lemma sort_score_desc_stable:
  "filter (\<lambda>x. fst x = k) (sort_score_desc scored) = filter (\<lambda>x. fst x = k) scored"
proof -
  have "filter (\<lambda>y. - fst y = - k) (sort_key (\<lambda>x. - fst x) scored)
      = filter (\<lambda>y. - fst y = - k) scored"
    by (rule stable_sort_key_sort_key [unfolded stable_sort_key_def, rule_format])
  then show ?thesis by (simp add: sort_score_desc_def)
qed

text \<open>
  C5, as amended. \<open>identify_core_chains\<close> returns the first 10 chains of a ranking that is
  in descending order of the computed score and in which, for every score, the chains of
  that score stand in the order in which they were enumerated. No tie is broken by
  length or by node ids.
\<close>

theorem identify_core_chains_keeps_tie_order:
  assumes "entry_loop gcc g (entry_points g) [] = Inr enumerated"
  shows "\<exists>ranked. identify_core_chains gcc g = Inr (map snd (take 10 ranked))
     \<and> sorted_wrt (\<lambda>x y. fst y \<le> fst x) ranked
     \<and> (\<forall>k. filter (\<lambda>x. fst x = k) ranked = filter (\<lambda>x. fst x = k) enumerated)"
  using assms sort_score_desc_sorted [of enumerated] sort_score_desc_stable [of _ enumerated]
  by (intro exI [of _ "sort_score_desc enumerated"]) (simp add: identify_core_chains_def)

lemma tie_graph_score_b: "calculate_chain_importance [''b''] tie_graph = Inr 41"
  by (simp add: calculate_chain_importance_def proximity_one tie_graph_def graph_of_def
      plain_node_def truthy_def double_eval)

lemma tie_graph_score_a: "calculate_chain_importance [''a''] tie_graph = Inr 41"
  by (simp add: calculate_chain_importance_def proximity_one tie_graph_def graph_of_def
      plain_node_def truthy_def double_eval)

lemma tie_graph_chains:
  "get_call_chain tie_graph ''b'' 5 = Inr [[''b'']]"
  "get_call_chain tie_graph ''a'' 5 = Inr [[''a'']]"
  "entry_points tie_graph = [''b'', ''a'']"
  by (simp_all add: get_call_chain_def tie_graph_def graph_of_def plain_node_def
      eval_nat_numeral)

lemma tie_graph_enumerated:
  "entry_loop get_call_chain tie_graph (entry_points tie_graph) []
     = Inr [(41, [''b'']), (41, [''a''])]"
  by (simp add: tie_graph_chains tie_graph_score_b tie_graph_score_a)

theorem identify_core_chains_keeps_tie_order_witness:
  "\<exists>ranked. identify_core_chains get_call_chain tie_graph = Inr (map snd (take 10 ranked))
     \<and> filter (\<lambda>x. fst x = 41) ranked = [(41 :: rat, [''b'']), (41, [''a''])]"
proof -
  obtain ranked where "identify_core_chains get_call_chain tie_graph = Inr (map snd (take 10 ranked))"
    and "\<forall>k. filter (\<lambda>x. fst x = k) ranked
           = filter (\<lambda>x. fst x = k) [(41 :: rat, [''b'']), (41, [''a''])]"
    using identify_core_chains_keeps_tie_order [OF tie_graph_enumerated] by blast
  then show ?thesis by (intro exI [of _ ranked]) simp
qed

lemma length_tie_score_e: "calculate_chain_importance [''e''] length_tie_graph = Inr 71"
  by (simp add: calculate_chain_importance_def proximity_one length_tie_graph_def graph_of_def
      plain_node_def truthy_def double_eval)

lemma length_tie_score_xy: "calculate_chain_importance [''x'', ''y''] length_tie_graph = Inr 71"
  by (simp add: calculate_chain_importance_def proximity_two length_tie_graph_def graph_of_def
      plain_node_def truthy_def double_eval)

lemma length_tie_graph_chains:
  "get_call_chain length_tie_graph ''x'' 5 = Inr [[''x'', ''y'']]"
  "get_call_chain length_tie_graph ''e'' 5 = Inr [[''e'']]"
  "entry_points length_tie_graph = [''x'', ''e'']"
  by (simp_all add: get_call_chain_def length_tie_graph_def graph_of_def plain_node_def
      eval_nat_numeral)

text \<open>
  C5 as stated fails. In \<open>tie_graph\<close> the chains \<open>[b]\<close> and \<open>[a]\<close> have the same score and
  length, and \<open>[b]\<close> is ranked first although \<open>[a]\<close> is the smaller sequence. In
  \<open>length_tie_graph\<close> the chains \<open>[x, y]\<close> and \<open>[e]\<close> have the same score, and the longer
  one is ranked first.
\<close>

theorem identify_core_chains_tie_counterexample:
  "identify_core_chains get_call_chain tie_graph = Inr [[''b''], [''a'']]
   \<and> calculate_chain_importance [''b''] tie_graph = Inr 41
   \<and> calculate_chain_importance [''a''] tie_graph = Inr 41
   \<and> length [''b''] = length [''a'']
   \<and> [''a''] < [''b'']
   \<and> identify_core_chains get_call_chain length_tie_graph = Inr [[''x'', ''y''], [''e'']]
   \<and> calculate_chain_importance [''x'', ''y''] length_tie_graph = Inr 71
   \<and> calculate_chain_importance [''e''] length_tie_graph = Inr 71
   \<and> length [''e''] < length [''x'', ''y'']"
  by (simp add: identify_core_chains_def sort_score_desc_def tie_graph_chains
      length_tie_graph_chains tie_graph_score_a tie_graph_score_b length_tie_score_e
      length_tie_score_xy)

text \<open>
  The ranking follows the doubles. In \<open>rounding_graph\<close> the chains of \<open>q\<close> and \<open>p\<close> score
  1414/15 in exact arithmetic, but the program computes 94.26666666666665 for the chain of
  \<open>q\<close> and 94.26666666666667 for the chain of \<open>p\<close>, and ranks the chain of \<open>p\<close> first
  although it was enumerated second.
\<close>

lemma rounding_graph_score_q:
  "calculate_chain_importance [''q'', ''q1'', ''q2''] rounding_graph
     = Inr (414589184446737 / 4398046511104)"
  by (simp add: calculate_chain_importance_def proximity_three rounding_graph_def graph_of_def
      plain_node_def truthy_def double_eval)

lemma rounding_graph_score_p:
  "calculate_chain_importance [''p'', ''p1'', ''p2''] rounding_graph
     = Inr (6633426951147793 / 70368744177664)"
  by (simp add: calculate_chain_importance_def proximity_three rounding_graph_def graph_of_def
      plain_node_def truthy_def double_eval)

lemma rounding_graph_chains:
  "get_call_chain rounding_graph ''q'' 5 = Inr [[''q'', ''q1'', ''q2'']]"
  "get_call_chain rounding_graph ''p'' 5 = Inr [[''p'', ''p1'', ''p2'']]"
  "entry_points rounding_graph = [''q'', ''p'']"
  by (simp_all add: get_call_chain_def rounding_graph_def graph_of_def plain_node_def
      eval_nat_numeral)

lemma rounding_graph_ranking:
  "identify_core_chains get_call_chain rounding_graph
     = Inr [[''p'', ''p1'', ''p2''], [''q'', ''q1'', ''q2'']]"
  by (simp add: identify_core_chains_def sort_score_desc_def rounding_graph_chains
      rounding_graph_score_q rounding_graph_score_p)

subsection \<open>Chain enumeration\<close>

lemma concat_results_Inr:
  "concat_results rs = Inr ys \<Longrightarrow> y \<in> set ys \<Longrightarrow> \<exists>xs. Inr xs \<in> set rs \<and> y \<in> set xs"
proof (induction rs arbitrary: ys)
  case Nil
  then show ?case by simp
next
  case (Cons r rs)
  from Cons.prems(1) obtain xs zs where r: "r = Inr xs" and zs: "concat_results rs = Inr zs"
    and ys: "ys = xs @ zs"
    by (auto split: sum.splits)
  show ?case
  proof (cases "y \<in> set xs")
    case True
    then show ?thesis using r by auto
  next
    case False
    then have "y \<in> set zs" using Cons.prems(2) ys by simp
    from Cons.IH [OF zs this] show ?thesis by auto
  qed
qed

lemma concat_results_Inl:
  "concat_results rs = Inl e \<Longrightarrow> Inl e \<in> set rs"
  by (induction rs) (auto split: sum.splits)

lemma concat_results_nonempty:
  "concat_results rs = Inr ys \<Longrightarrow> rs \<noteq> [] \<Longrightarrow> \<forall>xs. Inr xs \<in> set rs \<longrightarrow> xs \<noteq> [] \<Longrightarrow> ys \<noteq> []"
  by (cases rs) (auto split: sum.splits)

lemma walk_chains:
  "walk g k path = Inr cs \<Longrightarrow> path \<noteq> [] \<Longrightarrow> distinct path \<Longrightarrow> c \<in> set cs
   \<Longrightarrow> c \<noteq> [] \<and> distinct c \<and> length c \<le> length path + k \<and> hd c = hd path"
proof (induction k arbitrary: path cs)
  case 0
  then show ?case by auto
next
  case (Suc k)
  from Suc.prems(1) obtain n where n: "nodes g (last path) = Some n"
    by (auto split: option.splits)
  let ?fresh = "filter (\<lambda>c. c \<notin> set path) (calls n)"
  show ?case
  proof (cases "?fresh = []")
    case True
    then have "cs = [path]" using Suc.prems(1) n by (simp add: Let_def)
    then show ?thesis using Suc.prems by simp
  next
    case False
    then have "concat_results (map (\<lambda>c. walk g k (path @ [c])) ?fresh) = Inr cs"
      using Suc.prems(1) n by (simp add: Let_def)
    from concat_results_Inr [OF this Suc.prems(4)]
    obtain xs x where x: "x \<in> set ?fresh" and w: "walk g k (path @ [x]) = Inr xs"
      and c: "c \<in> set xs"
      by (auto simp: image_iff) metis
    have "distinct (path @ [x])" using x Suc.prems(3) by simp
    from Suc.IH [OF w _ this c] show ?thesis using Suc.prems(2) by simp
  qed
qed

lemma walk_nonempty: "walk g k path = Inr cs \<Longrightarrow> cs \<noteq> []"
proof (induction k arbitrary: path cs)
  case 0
  then show ?case by auto
next
  case (Suc k)
  from Suc.prems(1) obtain n where n: "nodes g (last path) = Some n"
    by (auto split: option.splits)
  let ?fresh = "filter (\<lambda>c. c \<notin> set path) (calls n)"
  show ?case
  proof (cases "?fresh = []")
    case True
    then show ?thesis using Suc.prems n by (auto simp: Let_def)
  next
    case False
    then have r: "concat_results (map (\<lambda>c. walk g k (path @ [c])) ?fresh) = Inr cs"
      using Suc.prems(1) n by (simp add: Let_def)
    show ?thesis
    proof (rule concat_results_nonempty [OF r])
      show "map (\<lambda>c. walk g k (path @ [c])) ?fresh \<noteq> []" using False by simp
      show "\<forall>xs. Inr xs \<in> set (map (\<lambda>c. walk g k (path @ [c])) ?fresh) \<longrightarrow> xs \<noteq> []"
        using Suc.IH by (auto simp: image_iff) metis
    qed
  qed
qed

lemma walk_error:
  "walk g k path = Inl e \<Longrightarrow> e = InputError \<and> \<not> (last path \<in> dom (nodes g) \<and> closed_graph g)"
proof (induction k arbitrary: path)
  case 0
  then show ?case by simp
next
  case (Suc k)
  show ?case
  proof (cases "nodes g (last path)")
    case None
    then show ?thesis using Suc.prems by auto
  next
    case (Some n)
    let ?fresh = "filter (\<lambda>c. c \<notin> set path) (calls n)"
    have "concat_results (map (\<lambda>c. walk g k (path @ [c])) ?fresh) = Inl e"
      using Suc.prems Some by (simp add: Let_def split: if_splits)
    from concat_results_Inl [OF this]
    obtain x where x: "x \<in> set (calls n)" and w: "walk g k (path @ [x]) = Inl e"
      by (auto simp: image_iff)
    from Suc.IH [OF w] have e: "e = InputError" and "\<not> (x \<in> dom (nodes g) \<and> closed_graph g)"
      by simp_all
    then have "\<not> closed_graph g" using x Some by (auto simp: closed_graph_def)
    with e show ?thesis by simp
  qed
qed

text \<open>
  C9. The enumeration is a total function: recursion on the remaining depth. For every
  graph, entry id and depth it returns either an error or a list of chains. An error
  only arises for depth 0 or for a graph with an id that names no node. The list of
  chains is never empty, and every chain in it is non-empty, starts at the entry id,
  repeats no node id and has at most \<open>max_depth\<close> nodes. On the graph where \<open>a\<close> calls
  \<open>b\<close> and \<open>b\<close> calls \<open>a\<close> the only chain from \<open>a\<close> is \<open>[a, b]\<close>.
\<close>

theorem get_call_chain_simple_paths:
  "case get_call_chain g entry_id max_depth of
     Inl e \<Rightarrow> (max_depth = 0 \<and> e = ConfigurationError)
        \<or> (e = InputError \<and> \<not> (entry_id \<in> dom (nodes g) \<and> closed_graph g))
   | Inr cs \<Rightarrow> cs \<noteq> []
        \<and> (\<forall>c \<in> set cs. c \<noteq> [] \<and> distinct c \<and> length c \<le> max_depth \<and> hd c = entry_id)"
proof (cases "max_depth = 0")
  case True
  then show ?thesis by (simp add: get_call_chain_def)
next
  case False
  then have g: "get_call_chain g entry_id max_depth = walk g (max_depth - 1) [entry_id]"
    by (simp add: get_call_chain_def)
  show ?thesis
  proof (cases "walk g (max_depth - 1) [entry_id]")
    case (Inl e)
    from walk_error [OF this] show ?thesis unfolding g Inl by simp
  next
    case (Inr cs)
    have "\<forall>c \<in> set cs. c \<noteq> [] \<and> distinct c \<and> length c \<le> max_depth \<and> hd c = entry_id"
    proof
      fix c assume "c \<in> set cs"
      from walk_chains [OF Inr _ _ this] False
      show "c \<noteq> [] \<and> distinct c \<and> length c \<le> max_depth \<and> hd c = entry_id" by simp
    qed
    with walk_nonempty [OF Inr] show ?thesis unfolding g Inr by simp
  qed
qed

theorem get_call_chain_simple_paths_witness:
  "get_call_chain cyclic_graph ''a'' 5 = Inr [[''a'', ''b'']]
   \<and> distinct [''a'', ''b''] \<and> length [''a'', ''b''] \<le> (5::nat)"
  using get_call_chain_simple_paths [where g = cyclic_graph and entry_id = "''a''" and max_depth = 5]
  by (simp add: get_call_chain_def cyclic_graph_def graph_of_def plain_node_def eval_nat_numeral)

subsection \<open>Question generation\<close>

lemma digits_value_str_nat: "digits_value (str_nat n) = n"
proof (induction n rule: str_nat.induct)
  case (1 n)
  show ?case
  proof (cases "n < 10")
    case True
    then show ?thesis
      by (subst str_nat.simps) (simp add: digits_value_def)
  next
    case False
    have m: "48 + n mod 10 < 256" by (rule less_trans [of _ 58]) simp_all
    from False 1 have "digits_value (str_nat (n div 10)) = n div 10" by simp
    then show ?thesis
      using False m by (subst str_nat.simps) (simp add: digits_value_def)
  qed
qed

lemma str_nat_inj: "str_nat m = str_nat n \<Longrightarrow> m = n"
  by (metis digits_value_str_nat)

lemma str_nat_no_minus: "CHR ''-'' \<notin> set (str_nat n)"
proof (induction n rule: str_nat.induct)
  case (1 n)
  have c: "CHR ''-'' \<noteq> char_of (48 + k)" if "k < 10" for k :: nat
  proof
    assume "CHR ''-'' = char_of (48 + k)"
    then have "of_char (char_of (48 + k) :: char) = (of_char CHR ''-'' :: nat)" by metis
    then show False using that by simp
  qed
  show ?case
  proof (cases "n < 10")
    case True
    then show ?thesis by (subst str_nat.simps) (simp add: c)
  next
    case False
    then show ?thesis using 1 by (subst str_nat.simps) (simp add: c)
  qed
qed

lemma py_str_inj: "py_str i = py_str j \<Longrightarrow> i = j"
proof -
  assume e: "py_str i = py_str j"
  have neg: "str_nat a \<noteq> CHR ''-'' # str_nat b" for a b
    using str_nat_no_minus [of a] by (metis list.set_intros(1))
  show ?thesis
  proof (cases "i < 0"; cases "j < 0")
    assume "i < 0" "j < 0"
    with e have "nat (- i) = nat (- j)" by (simp add: py_str_def str_nat_inj)
    then show ?thesis using \<open>i < 0\<close> \<open>j < 0\<close> by simp
  next
    assume "i < 0" "\<not> j < 0"
    with e neg show ?thesis by (simp add: py_str_def) metis
  next
    assume "\<not> i < 0" "j < 0"
    with e neg show ?thesis by (simp add: py_str_def)
  next
    assume "\<not> i < 0" "\<not> j < 0"
    with e have "nat i = nat j" by (simp add: py_str_def str_nat_inj)
    then show ?thesis using \<open>\<not> i < 0\<close> \<open>\<not> j < 0\<close> by simp
  qed
qed

text \<open>
  The parameter-count template has three distractors, and none of them is the correct
  answer.
\<close>

lemma parameter_count_distractors_differ:
  "length (tpl_distractors (templates ext node g ! 1)) = 3
   \<and> tpl_correct (templates ext node g ! 1) \<notin> set (tpl_distractors (templates ext node g ! 1))"
  by (auto simp: templates_def dest: py_str_inj)

text \<open>
  C3. For a node whose return type is \<open>str\<close>, the return-type template that
  \<open>random.choice\<close> picks on the draw 0 has the correct answer \<open>str\<close> among its
  distractors, and it carries four distractors, five options with the correct answer.
\<close>

theorem return_type_distractor_repeats_answer:
  "map_sum id fst (choose_template ext parse_node g draws_0)
     = Inr \<lparr> tpl_question = ''What does parse() return?'', tpl_correct = ''str'',
             tpl_distractors = [''str'', ''dict'', ''list'', ''object''] \<rparr>
   \<and> ''str'' \<in> set [''str'', ''dict'', ''list'', ''object'']
   \<and> length (''str'' # [''str'', ''dict'', ''list'', ''object'']) = 5"
  by (simp add: choose_template_def random_choice_def templates_def draws_0_def parse_node_def
      plain_node_def truthy_def)

text \<open>
  The first-call template takes its distractors from \<open>generate_plausible_functions(graph)\<close>,
  which is not told the correct answer: whenever that list holds the node's first call,
  the correct answer is among the distractors.
\<close>

lemma first_call_distractor_repeats_answer:
  assumes "calls node = c # cs" "c \<in> set (generate_plausible_functions ext g)"
  shows "tpl_correct (templates ext node g ! 2) \<in> set (tpl_distractors (templates ext node g ! 2))"
  using assms by (simp add: templates_def)

subsection \<open>The complete flow\<close>


lemma challenge_loop_multiple_choice:
  "challenge_loop ext g chain (MULTIPLE_CHOICE # tys) r ch acc = Inl (NameError ''node'')"
  by (simp add: name_node_def)

text \<open>Whatever the external functions, the draws and the state of the loop are, the
  first chain of the loop ends the run with an error that the chain and the graph fix.\<close>

lemma level_loop_first_chain:
  "\<exists>e. \<forall>ext i r ch levels. level_loop ext g (chain # rest) i r ch levels = Inl e"
proof (cases "calculate_difficulty chain g")
  case (Inl e)
  then show ?thesis by (intro exI [of _ e]) simp
next
  case d: (Inr d)
  show ?thesis
  proof (cases "select_challenge_types chain d g")
    case (Inl e)
    then show ?thesis using d by (intro exI [of _ e]) simp
  next
    case (Inr tys)
    from select_challenge_types_shape [OF this] obtain rest' where
      "tys = MULTIPLE_CHOICE # rest'"
      by (cases tys) auto
    then show ?thesis
      using d Inr
      by (intro exI [of _ "NameError ''node''"]) (simp add: name_node_def)
  qed
qed

text \<open>As the source stands, \<open>generate_levels\<close> returns no level at all.\<close>

lemma generate_levels_returns_no_level:
  assumes "generate_levels ext r g max_levels = Inr levels"
  shows "levels = []"
proof -
  from assms obtain core where
    loop: "level_loop ext g (py_take max_levels core) 0 r None [] = Inr levels"
    by (auto simp: generate_levels_def split: sum.splits)
  show ?thesis
  proof (cases "py_take max_levels core")
    case Nil
    then show ?thesis using loop by simp
  next
    case (Cons chain rest)
    from level_loop_first_chain [of g chain rest] loop show ?thesis
      unfolding Cons by auto
  qed
qed





text \<open>
  \<open>generate_multiple_choice\<close> by itself does depend on the draw: for the same node it asks
  for the return type on the draw 0 and for the number of parameters on the draw 1.
\<close>

lemma choose_template_depends_on_draw:
  "map_sum id (tpl_question \<circ> fst) (choose_template ext (plain_node ''f'') g draws_0)
     = Inr ''What does f() return?''
   \<and> map_sum id (tpl_question \<circ> fst) (choose_template ext (plain_node ''f'') g draws_1)
     = Inr ''How many parameters does f() accept?''"
  by (simp add: choose_template_def random_choice_def templates_def draws_0_def draws_1_def
      plain_node_def)







end
